theory Spec2Isabelle
  imports Complex_Main
begin

section \<open>Python values, errors and integer operators\<close>

text \<open>
  The repository holds two value types: \<^verbatim>\<open>FractionDataType\<close> (fraction_data_type.py) and
  \<^verbatim>\<open>Point\<close>/\<^verbatim>\<open>Line\<close> (cordination_geo.py). Python's unbounded integers are \<open>int\<close>.
  Every \<^verbatim>\<open>raise\<close> of the source is an \<open>Inl\<close> of the model, with the exception class and
  the message of the source. A special method \<^verbatim>\<open>__add__\<close> of the class is the constant
  \<open>Fraction_add\<close>, and likewise for the others; the constructor \<^verbatim>\<open>__init__\<close> is
  \<open>FractionDataType\<close>, as a caller writes it.
\<close>

datatype py_error =
    ValueError string
  | TypeError string
  | ZeroDivisionError
  | AttributeError

text \<open>An object of class \<^verbatim>\<open>FractionDataType\<close>: the attributes \<^verbatim>\<open>self.num\<close>, \<^verbatim>\<open>self.den\<close>.\<close>

record frac =
  num :: int
  den :: int

text \<open>
  The values that reach or leave the operators of \<^verbatim>\<open>FractionDataType\<close>. \<open>PyOther\<close> is an
  object that is neither an \<^verbatim>\<open>int\<close> nor a \<^verbatim>\<open>FractionDataType\<close> and defines no arithmetic
  method of its own; \<open>NotImplemented\<close> is Python's sentinel of that name.
\<close>

datatype pyval =
    PyInt int
  | PyBool bool
  | PyFrac frac
  | NotImplemented
  | PyOther

text \<open>Sequencing of calls that may raise: the first exception ends the computation.\<close>

definition bind_result :: "py_error + 'a \<Rightarrow> ('a \<Rightarrow> py_error + 'b) \<Rightarrow> py_error + 'b" where
  "bind_result r k = (case r of Inl e \<Rightarrow> Inl e | Inr v \<Rightarrow> k v)"

text \<open>
  Python's \<^verbatim>\<open>//\<close> and \<^verbatim>\<open>%\<close> on integers: floor division and the remainder with the sign of
  the divisor, which is what \<open>div\<close> and \<open>mod\<close> are on \<open>int\<close>; a zero divisor raises.
\<close>

definition py_floordiv :: "int \<Rightarrow> int \<Rightarrow> py_error + int" where
  "py_floordiv a b = (if b = 0 then Inl ZeroDivisionError else Inr (a div b))"

definition py_mod :: "int \<Rightarrow> int \<Rightarrow> py_error + int" where
  "py_mod a b = (if b = 0 then Inl ZeroDivisionError else Inr (a mod b))"

text \<open>\<^verbatim>\<open>isinstance(v, int)\<close>: \<^verbatim>\<open>bool\<close> is a subclass of \<^verbatim>\<open>int\<close>, with \<^verbatim>\<open>int(True) = 1\<close>.\<close>

definition int_operand :: "pyval \<Rightarrow> int option" where
  "int_operand v =
     (case v of
        PyInt n \<Rightarrow> Some n
      | PyBool b \<Rightarrow> Some (if b then 1 else 0)
      | _ \<Rightarrow> None)"

section \<open>FractionDataType\<close>

subsection \<open>Construction\<close>

text \<open>
  \<^verbatim>\<open>__init__\<close> on a pair of integers (for integers the two \<^verbatim>\<open>isinstance(_, float)\<close>
  conversions and \<^verbatim>\<open>int(num), int(den)\<close> leave the arguments as they are): reject a zero
  denominator, make the denominator positive, divide both parts by \<^verbatim>\<open>gcd(abs(num), abs(den))\<close>.
\<close>

definition FractionDataType :: "int \<Rightarrow> int \<Rightarrow> py_error + frac" where
  "FractionDataType n d =
     (if d = 0 then Inl (ValueError ''Denominator cannot be zero'')
      else
        let (n1, d1) = (if d < 0 then (- n, - d) else (n, d));
            g = gcd \<bar>n1\<bar> \<bar>d1\<bar>
        in bind_result (py_floordiv n1 g) (\<lambda>qn.
           bind_result (py_floordiv d1 g) (\<lambda>qd.
             Inr \<lparr>num = qn, den = qd\<rparr>)))"

text \<open>
  The first two statements of every binary operator:
  \<^verbatim>\<open>if isinstance(other, int): other = FractionDataType(other, 1)\<close>.
\<close>

definition coerce :: "pyval \<Rightarrow> py_error + pyval" where
  "coerce other =
     (case int_operand other of
        Some n \<Rightarrow> bind_result (FractionDataType n 1) (\<lambda>f. Inr (PyFrac f))
      | None \<Rightarrow> Inr other)"

text \<open>A call of the constructor whose result is returned as a Python value.\<close>

definition new_fraction :: "int \<Rightarrow> int \<Rightarrow> py_error + pyval" where
  "new_fraction n d = bind_result (FractionDataType n d) (\<lambda>f. Inr (PyFrac f))"

subsection \<open>Arithmetic operators\<close>

definition Fraction_add :: "frac \<Rightarrow> pyval \<Rightarrow> py_error + pyval" where
  "Fraction_add self other =
     bind_result (coerce other) (\<lambda>v.
       case v of
         PyFrac other' \<Rightarrow>
           new_fraction (num self * den other' + num other' * den self) (den self * den other')
       | _ \<Rightarrow> Inr NotImplemented)"

definition Fraction_radd :: "frac \<Rightarrow> pyval \<Rightarrow> py_error + pyval" where
  "Fraction_radd self other = Fraction_add self other"

definition Fraction_sub :: "frac \<Rightarrow> pyval \<Rightarrow> py_error + pyval" where
  "Fraction_sub self other =
     bind_result (coerce other) (\<lambda>v.
       case v of
         PyFrac other' \<Rightarrow>
           new_fraction (num self * den other' - num other' * den self) (den self * den other')
       | _ \<Rightarrow> Inr NotImplemented)"

text \<open>
  \<^verbatim>\<open>__rsub__\<close> calls \<^verbatim>\<open>other.__sub__(self)\<close> on whatever \<^verbatim>\<open>other\<close> is after the conversion
  of an \<^verbatim>\<open>int\<close>; an object without that method raises \<^verbatim>\<open>AttributeError\<close>.
\<close>

definition Fraction_rsub :: "frac \<Rightarrow> pyval \<Rightarrow> py_error + pyval" where
  "Fraction_rsub self other =
     bind_result (coerce other) (\<lambda>v.
       case v of
         PyFrac other' \<Rightarrow> Fraction_sub other' (PyFrac self)
       | _ \<Rightarrow> Inl AttributeError)"

definition Fraction_mul :: "frac \<Rightarrow> pyval \<Rightarrow> py_error + pyval" where
  "Fraction_mul self other =
     bind_result (coerce other) (\<lambda>v.
       case v of
         PyFrac other' \<Rightarrow> new_fraction (num self * num other') (den self * den other')
       | _ \<Rightarrow> Inr NotImplemented)"

definition Fraction_rmul :: "frac \<Rightarrow> pyval \<Rightarrow> py_error + pyval" where
  "Fraction_rmul self other = Fraction_mul self other"

definition Fraction_truediv :: "frac \<Rightarrow> pyval \<Rightarrow> py_error + pyval" where
  "Fraction_truediv self other =
     bind_result (coerce other) (\<lambda>v.
       case v of
         PyFrac other' \<Rightarrow>
           if num other' = 0 then Inl (ValueError ''Cannot divide by zero'')
           else new_fraction (num self * den other') (den self * num other')
       | _ \<Rightarrow> Inr NotImplemented)"

definition Fraction_rtruediv :: "frac \<Rightarrow> pyval \<Rightarrow> py_error + pyval" where
  "Fraction_rtruediv self other =
     bind_result (coerce other) (\<lambda>v.
       case v of
         PyFrac other' \<Rightarrow> Fraction_truediv other' (PyFrac self)
       | _ \<Rightarrow> Inl AttributeError)"

definition Fraction_floordiv :: "frac \<Rightarrow> pyval \<Rightarrow> py_error + pyval" where
  "Fraction_floordiv self other =
     bind_result (coerce other) (\<lambda>v.
       case v of
         PyFrac other' \<Rightarrow>
           if num other' = 0 then Inl (ValueError ''Cannot divide by zero'')
           else bind_result (py_floordiv (num self * den other') (den self * num other'))
                  (\<lambda>q. Inr (PyInt q))
       | _ \<Rightarrow> Inr NotImplemented)"

text \<open>
  A binary operator applied inside the class (\<^verbatim>\<open>self // other\<close>, \<^verbatim>\<open>other * quotient\<close>,
  \<^verbatim>\<open>self - ...\<close> in \<^verbatim>\<open>__mod__\<close>): the left operand's method is called, and a
  \<open>NotImplemented\<close> answer, with no reflected method on the right, is a \<^verbatim>\<open>TypeError\<close>.
\<close>

definition operator :: "(frac \<Rightarrow> pyval \<Rightarrow> py_error + pyval) \<Rightarrow> pyval \<Rightarrow> pyval \<Rightarrow> py_error + pyval" where
  "operator method lhs rhs =
     (case lhs of
        PyFrac f \<Rightarrow>
          (case method f rhs of
             Inr NotImplemented \<Rightarrow> Inl (TypeError ''unsupported operand type(s)'')
           | r \<Rightarrow> r)
      | _ \<Rightarrow> Inl (TypeError ''unsupported operand type(s)''))"

definition Fraction_mod :: "frac \<Rightarrow> pyval \<Rightarrow> py_error + pyval" where
  "Fraction_mod self other =
     bind_result (coerce other) (\<lambda>v.
       case v of
         PyFrac other' \<Rightarrow>
           bind_result (operator Fraction_floordiv (PyFrac self) (PyFrac other')) (\<lambda>quotient.
           bind_result (operator Fraction_mul (PyFrac other') quotient) (\<lambda>product.
             operator Fraction_sub (PyFrac self) product))
       | _ \<Rightarrow> Inr NotImplemented)"

text \<open>
  \<^verbatim>\<open>__pow__\<close>: both branches raise the parts to a non-negative power (\<^verbatim>\<open>-exponent\<close> in the
  negative branch), so Python's integer \<^verbatim>\<open>**\<close> is \<open>^\<close> on \<open>nat\<close> exponents here.
\<close>

definition Fraction_pow :: "frac \<Rightarrow> pyval \<Rightarrow> py_error + pyval" where
  "Fraction_pow self exponent =
     (case int_operand exponent of
        None \<Rightarrow> Inl (TypeError ''Exponent must be an integer'')
      | Some e \<Rightarrow>
          if e < 0 then new_fraction (den self ^ nat (- e)) (num self ^ nat (- e))
          else new_fraction (num self ^ nat e) (den self ^ nat e))"

definition Fraction_neg :: "frac \<Rightarrow> py_error + pyval" where
  "Fraction_neg self = new_fraction (- num self) (den self)"

definition Fraction_pos :: "frac \<Rightarrow> py_error + pyval" where
  "Fraction_pos self = new_fraction (num self) (den self)"

definition Fraction_abs :: "frac \<Rightarrow> py_error + pyval" where
  "Fraction_abs self = new_fraction \<bar>num self\<bar> (den self)"

subsection \<open>Comparisons\<close>

definition Fraction_eq :: "frac \<Rightarrow> pyval \<Rightarrow> py_error + pyval" where
  "Fraction_eq self other =
     bind_result (coerce other) (\<lambda>v.
       case v of
         PyFrac other' \<Rightarrow> Inr (PyBool (num self = num other' \<and> den self = den other'))
       | _ \<Rightarrow> Inr NotImplemented)"

definition Fraction_ne :: "frac \<Rightarrow> pyval \<Rightarrow> py_error + pyval" where
  "Fraction_ne self other =
     bind_result (Fraction_eq self other) (\<lambda>result.
       case result of
         PyBool b \<Rightarrow> Inr (PyBool (\<not> b))
       | _ \<Rightarrow> Inr result)"

definition Fraction_lt :: "frac \<Rightarrow> pyval \<Rightarrow> py_error + pyval" where
  "Fraction_lt self other =
     bind_result (coerce other) (\<lambda>v.
       case v of
         PyFrac other' \<Rightarrow> Inr (PyBool (num self * den other' < num other' * den self))
       | _ \<Rightarrow> Inr NotImplemented)"

definition Fraction_le :: "frac \<Rightarrow> pyval \<Rightarrow> py_error + pyval" where
  "Fraction_le self other =
     bind_result (coerce other) (\<lambda>v.
       case v of
         PyFrac other' \<Rightarrow> Inr (PyBool (num self * den other' \<le> num other' * den self))
       | _ \<Rightarrow> Inr NotImplemented)"

definition Fraction_gt :: "frac \<Rightarrow> pyval \<Rightarrow> py_error + pyval" where
  "Fraction_gt self other =
     bind_result (coerce other) (\<lambda>v.
       case v of
         PyFrac other' \<Rightarrow> Inr (PyBool (num self * den other' > num other' * den self))
       | _ \<Rightarrow> Inr NotImplemented)"

definition Fraction_ge :: "frac \<Rightarrow> pyval \<Rightarrow> py_error + pyval" where
  "Fraction_ge self other =
     bind_result (coerce other) (\<lambda>v.
       case v of
         PyFrac other' \<Rightarrow> Inr (PyBool (num self * den other' \<ge> num other' * den self))
       | _ \<Rightarrow> Inr NotImplemented)"

subsection \<open>Conversions and utility methods\<close>

definition Fraction_int :: "frac \<Rightarrow> py_error + int" where
  "Fraction_int self = py_floordiv (num self) (den self)"

definition simplify :: "frac \<Rightarrow> py_error + pyval" where
  "simplify self = new_fraction (num self) (den self)"

definition reciprocal :: "frac \<Rightarrow> py_error + pyval" where
  "reciprocal self =
     (if num self = 0 then Inl (ValueError ''Cannot take reciprocal of zero'')
      else new_fraction (den self) (num self))"

definition as_mixed_number :: "frac \<Rightarrow> py_error + int \<times> int \<times> int" where
  "as_mixed_number self =
     bind_result (py_floordiv (num self) (den self)) (\<lambda>whole.
     bind_result (py_mod \<bar>num self\<bar> (den self)) (\<lambda>remainder.
       Inr (whole, remainder, den self)))"

text \<open>
  \<^verbatim>\<open>from_float\<close> hands the float to the standard library
  (\<^verbatim>\<open>Fraction(f).limit_denominator(max_denominator)\<close>) and passes the numerator and the
  denominator it gets back to the constructor. The library call is a parameter of the
  model: it returns a pair of integers or raises.
\<close>

definition from_float :: "('f \<Rightarrow> int \<Rightarrow> py_error + int \<times> int) \<Rightarrow> 'f \<Rightarrow> int \<Rightarrow> py_error + pyval" where
  "from_float limit_denominator f max_denominator =
     bind_result (limit_denominator f max_denominator) (\<lambda>fr.
       new_fraction (fst fr) (snd fr))"

definition from_mixed :: "int \<Rightarrow> int \<Rightarrow> int \<Rightarrow> py_error + pyval" where
  "from_mixed whole n d = new_fraction (whole * d + n) d"

subsection \<open>The canonical form\<close>

text \<open>
  The invariant of the data model: a positive denominator, numerator and denominator
  without a common factor, and zero stored as \<open>0/1\<close>.
\<close>

definition reduced :: "frac \<Rightarrow> bool" where
  "reduced f \<longleftrightarrow> den f > 0 \<and> gcd \<bar>num f\<bar> (den f) = 1 \<and> (num f = 0 \<longrightarrow> den f = 1)"

text \<open>The rational number a fraction object stands for.\<close>

definition rat_of :: "frac \<Rightarrow> rat" where
  "rat_of f = of_int (num f) / of_int (den f)"

text \<open>
  The fractions the class hands to a caller: the result of the constructor on integers
  and of every operation that returns a \<^verbatim>\<open>FractionDataType\<close>, on any operands.
\<close>

inductive returned :: "frac \<Rightarrow> bool" where
  by_init: "FractionDataType n d = Inr r \<Longrightarrow> returned r"
| by_add: "Fraction_add self other = Inr (PyFrac r) \<Longrightarrow> returned r"
| by_radd: "Fraction_radd self other = Inr (PyFrac r) \<Longrightarrow> returned r"
| by_sub: "Fraction_sub self other = Inr (PyFrac r) \<Longrightarrow> returned r"
| by_rsub: "Fraction_rsub self other = Inr (PyFrac r) \<Longrightarrow> returned r"
| by_mul: "Fraction_mul self other = Inr (PyFrac r) \<Longrightarrow> returned r"
| by_rmul: "Fraction_rmul self other = Inr (PyFrac r) \<Longrightarrow> returned r"
| by_truediv: "Fraction_truediv self other = Inr (PyFrac r) \<Longrightarrow> returned r"
| by_rtruediv: "Fraction_rtruediv self other = Inr (PyFrac r) \<Longrightarrow> returned r"
| by_mod: "Fraction_mod self other = Inr (PyFrac r) \<Longrightarrow> returned r"
| by_pow: "Fraction_pow self exponent = Inr (PyFrac r) \<Longrightarrow> returned r"
| by_neg: "Fraction_neg self = Inr (PyFrac r) \<Longrightarrow> returned r"
| by_pos: "Fraction_pos self = Inr (PyFrac r) \<Longrightarrow> returned r"
| by_abs: "Fraction_abs self = Inr (PyFrac r) \<Longrightarrow> returned r"
| by_simplify: "simplify self = Inr (PyFrac r) \<Longrightarrow> returned r"
| by_reciprocal: "reciprocal self = Inr (PyFrac r) \<Longrightarrow> returned r"
| by_from_mixed: "from_mixed whole n d = Inr (PyFrac r) \<Longrightarrow> returned r"
| by_from_float:
    "from_float (limit_denominator :: real \<Rightarrow> int \<Rightarrow> py_error + int \<times> int) f max_denominator
       = Inr (PyFrac r) \<Longrightarrow> returned r"

section \<open>Point and Line\<close>

text \<open>
  Coordinates and coefficients are Python floats. They are modelled as real numbers:
  the arithmetic of the model is exact, and rounding, overflow and the special values of
  binary floating point are outside it. What Python adds to the arithmetic is kept:
  dividing a float by zero raises \<^verbatim>\<open>ZeroDivisionError\<close>.
\<close>

record point =
  x :: real
  y :: real

record line =
  A :: real
  B :: real
  C :: real

text \<open>An argument as the \<^verbatim>\<open>isinstance\<close> checks of the methods see it.\<close>

datatype geo_arg = PointObj point | LineObj line | OtherObj

definition float_truediv :: "real \<Rightarrow> real \<Rightarrow> py_error + real" where
  "float_truediv a b = (if b = 0 then Inl ZeroDivisionError else Inr (a / b))"

text \<open>\<^verbatim>\<open>math.hypot\<close> and \<^verbatim>\<open>math.isclose\<close> of the standard library, as documented there.\<close>

definition hypot :: "real \<Rightarrow> real \<Rightarrow> real" where
  "hypot a b = sqrt (a\<^sup>2 + b\<^sup>2)"

definition isclose :: "real \<Rightarrow> real \<Rightarrow> real \<Rightarrow> real \<Rightarrow> bool" where
  "isclose a b rel_tol abs_tol \<longleftrightarrow> \<bar>a - b\<bar> \<le> max (rel_tol * max \<bar>a\<bar> \<bar>b\<bar>) abs_tol"

text \<open>The default tolerances of \<^verbatim>\<open>math.isclose\<close>: \<^verbatim>\<open>rel_tol=1e-09\<close>, \<^verbatim>\<open>abs_tol=0.0\<close>.\<close>

definition default_rel_tol :: real where
  "default_rel_tol = 1 / 10 ^ 9"

subsection \<open>Point\<close>

definition distance_from_origin :: "point \<Rightarrow> real" where
  "distance_from_origin self = hypot (x self) (y self)"

definition magnitude :: "point \<Rightarrow> real" where
  "magnitude self = distance_from_origin self"

definition Point_normalize :: "point \<Rightarrow> py_error + point" where
  "Point_normalize self =
     (let m = magnitude self
      in if m = 0 then Inl (ValueError ''Cannot normalize zero-length vector'')
         else bind_result (float_truediv (x self) m) (\<lambda>xn.
              bind_result (float_truediv (y self) m) (\<lambda>yn.
                Inr \<lparr>x = xn, y = yn\<rparr>)))"

subsection \<open>Line\<close>

definition shortest_distance_to_point :: "line \<Rightarrow> geo_arg \<Rightarrow> py_error + real" where
  "shortest_distance_to_point self arg =
     (case arg of
        PointObj p \<Rightarrow>
          (let numerator = \<bar>A self * x p + B self * y p + C self\<bar>;
               denominator = hypot (A self) (B self)
           in float_truediv numerator denominator)
      | _ \<Rightarrow> Inl (ValueError ''Argument must be a Point instance''))"


definition project_point :: "line \<Rightarrow> geo_arg \<Rightarrow> py_error + point" where
  "project_point self arg =
     (case arg of
        PointObj p \<Rightarrow>
          (let denom = (A self)\<^sup>2 + (B self)\<^sup>2
           in if isclose denom 0 default_rel_tol 0 then Inl (ValueError ''Invalid line coefficients'')
              else bind_result (float_truediv (A self * x p + B self * y p + C self) denom) (\<lambda>factor.
                     Inr \<lparr>x = x p - A self * factor, y = y p - B self * factor\<rparr>))
      | _ \<Rightarrow> Inl (ValueError ''Argument must be a Point instance''))"

definition unit_normal :: "line \<Rightarrow> py_error + point" where
  "unit_normal self =
     (let s = hypot (A self) (B self)
      in if isclose s 0 default_rel_tol 0 then Inl (ValueError ''Invalid line coefficients'')
         else bind_result (float_truediv (A self) s) (\<lambda>xn.
              bind_result (float_truediv (B self) s) (\<lambda>yn.
                Inr \<lparr>x = xn, y = yn\<rparr>)))"

definition offset :: "line \<Rightarrow> real \<Rightarrow> py_error + line" where
  "offset self distance =
     (let s = hypot (A self) (B self)
      in if isclose s 0 default_rel_tol 0 then Inl (ValueError ''Invalid line coefficients'')
         else Inr \<lparr>A = A self, B = B self, C = C self - s * distance\<rparr>)"

section \<open>Properties of FractionDataType\<close>

subsection \<open>Evaluation rules\<close>

lemma bind_result_Inr [simp]: "bind_result (Inr v) k = k v"
  by (simp add: bind_result_def)

lemma bind_result_Inl [simp]: "bind_result (Inl e) k = Inl e"
  by (simp add: bind_result_def)

lemma bind_result_eq_Inr:
  "bind_result r k = Inr w \<longleftrightarrow> (\<exists>v. r = Inr v \<and> k v = Inr w)"
  by (cases r) simp_all

lemma py_floordiv_Inr [simp]: "b \<noteq> 0 \<Longrightarrow> py_floordiv a b = Inr (a div b)"
  by (simp add: py_floordiv_def)

lemma py_mod_Inr [simp]: "b \<noteq> 0 \<Longrightarrow> py_mod a b = Inr (a mod b)"
  by (simp add: py_mod_def)

lemma FractionDataType_zero [simp]:
  "FractionDataType n 0 = Inl (ValueError ''Denominator cannot be zero'')"
  by (simp add: FractionDataType_def)

text \<open>
  On a nonzero denominator the constructor computes the normal form that the library's
  rational numbers use for a quotient of integers.
\<close>

lemma FractionDataType_normalize:
  assumes "d \<noteq> 0"
  shows "FractionDataType n d =
           Inr \<lparr>num = fst (Rat.normalize (n, d)), den = snd (Rat.normalize (n, d))\<rparr>"
proof (cases "d < 0")
  case True
  then have g: "gcd n d \<noteq> 0" by simp
  have "(- n) div gcd n d = n div (- gcd n d)" "(- d) div gcd n d = d div (- gcd n d)"
    by (simp_all add: div_minus_right)
  with True g show ?thesis
    by (simp add: FractionDataType_def Rat.normalize_def Let_def)
next
  case False
  with assms have "0 < d" by simp
  then have "gcd n d \<noteq> 0" by simp
  with \<open>0 < d\<close> show ?thesis
    by (simp add: FractionDataType_def Rat.normalize_def Let_def)
qed

lemma FractionDataType_Inr_iff:
  "FractionDataType n d = Inr r \<longleftrightarrow>
     d \<noteq> 0 \<and> r = \<lparr>num = fst (Rat.normalize (n, d)), den = snd (Rat.normalize (n, d))\<rparr>"
  by (cases "d = 0") (auto simp: FractionDataType_normalize)

lemma FractionDataType_Inl_iff:
  "FractionDataType n d = Inl e \<longleftrightarrow> d = 0 \<and> e = ValueError ''Denominator cannot be zero''"
  by (cases "d = 0") (auto simp: FractionDataType_normalize)

lemma reduced_coprime: "reduced f \<Longrightarrow> coprime (num f) (den f)"
  by (simp add: reduced_def coprime_iff_gcd_eq_1)

lemma FractionDataType_reduced:
  assumes "FractionDataType n d = Inr r"
  shows "reduced r"
proof -
  from assms have d: "d \<noteq> 0"
    and r: "r = \<lparr>num = fst (Rat.normalize (n, d)), den = snd (Rat.normalize (n, d))\<rparr>"
    by (simp_all add: FractionDataType_Inr_iff)
  have nm: "Rat.normalize (n, d) = (num r, den r)"
    by (simp add: r)
  have pos: "0 < den r"
    using nm by (rule normalize_denom_pos)
  have cop: "coprime (num r) (den r)"
    using nm by (rule normalize_coprime)
  then have g: "gcd \<bar>num r\<bar> (den r) = 1"
    by (simp add: coprime_iff_gcd_eq_1)
  have "den r = 1" if "num r = 0"
    using g pos that by simp
  with pos g show ?thesis
    by (simp add: reduced_def)
qed

text \<open>The result stands for the quotient of the arguments.\<close>

lemma FractionDataType_value:
  assumes "FractionDataType n d = Inr r"
  shows "Fract (num r) (den r) = Fract n d" and "num r * d = n * den r" and "d \<noteq> 0"
proof -
  from assms show d: "d \<noteq> 0"
    by (simp add: FractionDataType_Inr_iff)
  from assms have "Rat.normalize (n, d) = (num r, den r)"
    by (simp add: FractionDataType_Inr_iff)
  then show eq: "Fract (num r) (den r) = Fract n d"
    by (rule normalize_eq)
  have "den r \<noteq> 0"
    using FractionDataType_reduced [OF assms] by (simp add: reduced_def)
  with eq d show "num r * d = n * den r"
    by (simp add: eq_rat)
qed

text \<open>
  A canonical fraction is the only canonical form of its value: the constructor returns it
  for every pair of integers with the same quotient.
\<close>

lemma FractionDataType_canonical:
  assumes "reduced f" and "d \<noteq> 0" and "n * den f = num f * d"
  shows "FractionDataType n d = Inr f"
proof -
  have pos: "0 < den f"
    using assms(1) by (simp add: reduced_def)
  then have "Fract n d = Fract (num f) (den f)"
    using assms(2,3) by (simp add: eq_rat)
  then have "quotient_of (Fract n d) = quotient_of (Fract (num f) (den f))"
    by simp
  then have "Rat.normalize (n, d) = Rat.normalize (num f, den f)"
    by (simp only: quotient_of_Fract)
  also have "\<dots> = (num f, den f)"
    using pos reduced_coprime [OF assms(1)] by (rule normalize_stable)
  finally show ?thesis
    using assms(2) by (simp add: FractionDataType_normalize)
qed

lemma FractionDataType_idem: "reduced f \<Longrightarrow> FractionDataType (num f) (den f) = Inr f"
  by (rule FractionDataType_canonical) (simp_all add: reduced_def)

lemma new_fraction_eq_Inr:
  "new_fraction n d = Inr v \<longleftrightarrow> (\<exists>r. FractionDataType n d = Inr r \<and> v = PyFrac r)"
  by (auto simp: new_fraction_def bind_result_eq_Inr)

lemma new_fraction_reduced: "new_fraction n d = Inr (PyFrac r) \<Longrightarrow> reduced r"
  by (auto simp: new_fraction_eq_Inr intro: FractionDataType_reduced)

lemma new_fraction_Inl_iff:
  "new_fraction n d = Inl e \<longleftrightarrow> d = 0 \<and> e = ValueError ''Denominator cannot be zero''"
  by (cases "d = 0") (auto simp: new_fraction_def FractionDataType_normalize)

lemma new_fraction_canonical:
  "reduced f \<Longrightarrow> d \<noteq> 0 \<Longrightarrow> n * den f = num f * d \<Longrightarrow> new_fraction n d = Inr (PyFrac f)"
  by (simp add: new_fraction_def FractionDataType_canonical)

lemma FractionDataType_int [simp]: "FractionDataType n 1 = Inr \<lparr>num = n, den = 1\<rparr>"
  by (simp add: FractionDataType_def)

lemma coerce_simps [simp]:
  "coerce (PyFrac g) = Inr (PyFrac g)"
  "coerce (PyInt n) = Inr (PyFrac \<lparr>num = n, den = 1\<rparr>)"
  "coerce (PyBool b) = Inr (PyFrac \<lparr>num = (if b then 1 else 0), den = 1\<rparr>)"
  "coerce NotImplemented = Inr NotImplemented"
  "coerce PyOther = Inr PyOther"
  by (simp_all add: coerce_def int_operand_def)

lemma coerce_Inr: "\<exists>w. coerce v = Inr w"
  by (cases v) simp_all

lemma operator_eq_Inr:
  "operator method lhs rhs = Inr v \<Longrightarrow> \<exists>f. lhs = PyFrac f \<and> method f rhs = Inr v"
  by (auto simp: operator_def split: pyval.splits sum.splits)

subsection \<open>Every operation returns a canonical fraction\<close>

text \<open>The shape shared by the binary operators: convert, then act on a fraction.\<close>

lemma on_fraction_Inr:
  assumes "bind_result (coerce other) (\<lambda>v. case v of PyFrac g \<Rightarrow> k g | _ \<Rightarrow> dflt) = Inr (PyFrac r)"
    and "dflt \<noteq> Inr (PyFrac r)"
  shows "\<exists>g. coerce other = Inr (PyFrac g) \<and> k g = Inr (PyFrac r)"
proof -
  obtain w where w: "coerce other = Inr w"
    using coerce_Inr by blast
  with assms show ?thesis
    by (cases w) simp_all
qed

lemma Fraction_add_reduced: "Fraction_add self other = Inr (PyFrac r) \<Longrightarrow> reduced r"
  unfolding Fraction_add_def by (drule on_fraction_Inr) (auto dest: new_fraction_reduced)

lemma Fraction_sub_reduced: "Fraction_sub self other = Inr (PyFrac r) \<Longrightarrow> reduced r"
  unfolding Fraction_sub_def by (drule on_fraction_Inr) (auto dest: new_fraction_reduced)

lemma Fraction_mul_reduced: "Fraction_mul self other = Inr (PyFrac r) \<Longrightarrow> reduced r"
  unfolding Fraction_mul_def by (drule on_fraction_Inr) (auto dest: new_fraction_reduced)

lemma Fraction_truediv_reduced: "Fraction_truediv self other = Inr (PyFrac r) \<Longrightarrow> reduced r"
  unfolding Fraction_truediv_def
  by (drule on_fraction_Inr) (auto split: if_splits dest: new_fraction_reduced)

lemma Fraction_rsub_reduced: "Fraction_rsub self other = Inr (PyFrac r) \<Longrightarrow> reduced r"
  unfolding Fraction_rsub_def by (drule on_fraction_Inr) (auto dest: Fraction_sub_reduced)

lemma Fraction_rtruediv_reduced: "Fraction_rtruediv self other = Inr (PyFrac r) \<Longrightarrow> reduced r"
  unfolding Fraction_rtruediv_def by (drule on_fraction_Inr) (auto dest: Fraction_truediv_reduced)

lemma Fraction_mod_reduced: "Fraction_mod self other = Inr (PyFrac r) \<Longrightarrow> reduced r"
  unfolding Fraction_mod_def
  by (drule on_fraction_Inr)
    (auto simp: bind_result_eq_Inr dest!: operator_eq_Inr dest: Fraction_sub_reduced)

lemma Fraction_pow_reduced: "Fraction_pow self exponent = Inr (PyFrac r) \<Longrightarrow> reduced r"
  by (auto simp: Fraction_pow_def split: option.splits if_splits dest: new_fraction_reduced)

text \<open>
  Claim C1. Every fraction returned to the caller, by the constructor on a pair of
  integers and by add, subtract, multiply, divide, modulo, power, negate, unary plus,
  absolute value, simplify, reciprocal, from_mixed and from_float, has a positive
  denominator and \<open>gcd \<bar>num\<bar> den = 1\<close>, with denominator 1 when the numerator is 0.
\<close>

theorem returned_fraction_is_canonical:
  assumes "returned r"
  shows "den r > 0 \<and> gcd \<bar>num r\<bar> (den r) = 1 \<and> (num r = 0 \<longrightarrow> den r = 1)"
proof -
  from assms have "reduced r"
  proof cases
    case by_init then show ?thesis by (rule FractionDataType_reduced)
  next
    case by_add then show ?thesis by (rule Fraction_add_reduced)
  next
    case by_radd then show ?thesis by (simp add: Fraction_radd_def Fraction_add_reduced)
  next
    case by_sub then show ?thesis by (rule Fraction_sub_reduced)
  next
    case by_rsub then show ?thesis by (rule Fraction_rsub_reduced)
  next
    case by_mul then show ?thesis by (rule Fraction_mul_reduced)
  next
    case by_rmul then show ?thesis by (simp add: Fraction_rmul_def Fraction_mul_reduced)
  next
    case by_truediv then show ?thesis by (rule Fraction_truediv_reduced)
  next
    case by_rtruediv then show ?thesis by (rule Fraction_rtruediv_reduced)
  next
    case by_mod then show ?thesis by (rule Fraction_mod_reduced)
  next
    case by_pow then show ?thesis by (rule Fraction_pow_reduced)
  next
    case by_neg then show ?thesis by (simp add: Fraction_neg_def new_fraction_reduced)
  next
    case by_pos then show ?thesis by (simp add: Fraction_pos_def new_fraction_reduced)
  next
    case by_abs then show ?thesis by (simp add: Fraction_abs_def new_fraction_reduced)
  next
    case by_simplify then show ?thesis by (simp add: simplify_def new_fraction_reduced)
  next
    case by_reciprocal then show ?thesis
      by (auto simp: reciprocal_def split: if_splits dest: new_fraction_reduced)
  next
    case by_from_mixed then show ?thesis by (simp add: from_mixed_def new_fraction_reduced)
  next
    case by_from_float then show ?thesis
      by (auto simp: from_float_def bind_result_eq_Inr dest: new_fraction_reduced)
  qed
  then show ?thesis by (simp add: reduced_def)
qed

theorem returned_fraction_is_canonical_witness:
  "returned \<lparr>num = - 3, den = 4\<rparr> \<and> returned \<lparr>num = 5, den = 6\<rparr> \<and>
   (0::int) < 4 \<and> gcd \<bar>- 3 :: int\<bar> 4 = 1 \<and> (0::int) < 6 \<and> gcd \<bar>5 :: int\<bar> 6 = 1"
proof -
  have "FractionDataType 6 (- 8) = Inr \<lparr>num = - 3, den = 4\<rparr>"
    by code_simp
  then have a: "returned \<lparr>num = - 3, den = 4\<rparr>"
    by (rule by_init)
  have "Fraction_add \<lparr>num = 1, den = 2\<rparr> (PyFrac \<lparr>num = 1, den = 3\<rparr>) = Inr (PyFrac \<lparr>num = 5, den = 6\<rparr>)"
    by code_simp
  then have b: "returned \<lparr>num = 5, den = 6\<rparr>"
    by (rule by_add)
  show ?thesis
    using a b returned_fraction_is_canonical [OF a] returned_fraction_is_canonical [OF b]
    by simp
qed

subsection \<open>Comparisons and the rational value\<close>

lemma reduced_den_pos: "reduced f \<Longrightarrow> 0 < den f"
  by (simp add: reduced_def)

lemma rat_of_less_iff:
  assumes "0 < den f" and "0 < den g"
  shows "rat_of f < rat_of g \<longleftrightarrow> num f * den g < num g * den f"
proof -
  have "rat_of f < rat_of g \<longleftrightarrow>
          (of_int (num f) :: rat) * of_int (den g) < of_int (num g) * of_int (den f)"
    using assms by (simp add: rat_of_def divide_less_eq less_divide_eq mult.commute)
  also have "\<dots> \<longleftrightarrow> num f * den g < num g * den f"
    by (simp only: of_int_mult [symmetric] of_int_less_iff)
  finally show ?thesis .
qed

lemma rat_of_le_iff:
  assumes "0 < den f" and "0 < den g"
  shows "rat_of f \<le> rat_of g \<longleftrightarrow> num f * den g \<le> num g * den f"
proof -
  have "rat_of f \<le> rat_of g \<longleftrightarrow>
          (of_int (num f) :: rat) * of_int (den g) \<le> of_int (num g) * of_int (den f)"
    using assms by (simp add: rat_of_def divide_le_eq le_divide_eq mult.commute)
  also have "\<dots> \<longleftrightarrow> num f * den g \<le> num g * den f"
    by (simp only: of_int_mult [symmetric] of_int_le_iff)
  finally show ?thesis .
qed

lemma rat_of_eq_iff:
  assumes "reduced f" and "reduced g"
  shows "rat_of f = rat_of g \<longleftrightarrow> num f = num g \<and> den f = den g"
proof
  assume eq: "rat_of f = rat_of g"
  have "Fract (num f) (den f) = Fract (num g) (den g)"
    using eq by (simp add: rat_of_def Fract_of_int_quotient)
  then have "Rat.normalize (num f, den f) = Rat.normalize (num g, den g)"
    by (simp only: quotient_of_Fract [symmetric])
  moreover have "Rat.normalize (num f, den f) = (num f, den f)"
    using reduced_den_pos [OF assms(1)] reduced_coprime [OF assms(1)] by (rule normalize_stable)
  moreover have "Rat.normalize (num g, den g) = (num g, den g)"
    using reduced_den_pos [OF assms(2)] reduced_coprime [OF assms(2)] by (rule normalize_stable)
  ultimately show "num f = num g \<and> den f = den g"
    by simp
next
  assume "num f = num g \<and> den f = den g"
  then show "rat_of f = rat_of g"
    by (simp add: rat_of_def)
qed

text \<open>
  Claim C8. For fractions \<open>f = a/b\<close> and \<open>g = c/d\<close> each comparison agrees with the order of
  the rational numbers they stand for, and an integer \<open>n\<close> compares as the fraction \<open>n/1\<close>.
\<close>

theorem comparisons_agree_with_rational_order:
  assumes "reduced f" and "reduced g"
  shows "Fraction_lt f (PyFrac g) = Inr (PyBool (rat_of f < rat_of g))
       \<and> Fraction_le f (PyFrac g) = Inr (PyBool (rat_of f \<le> rat_of g))
       \<and> Fraction_gt f (PyFrac g) = Inr (PyBool (rat_of f > rat_of g))
       \<and> Fraction_ge f (PyFrac g) = Inr (PyBool (rat_of f \<ge> rat_of g))
       \<and> Fraction_eq f (PyFrac g) = Inr (PyBool (rat_of f = rat_of g))
       \<and> Fraction_lt f (PyInt n) = Fraction_lt f (PyFrac \<lparr>num = n, den = 1\<rparr>)
       \<and> Fraction_le f (PyInt n) = Fraction_le f (PyFrac \<lparr>num = n, den = 1\<rparr>)
       \<and> Fraction_gt f (PyInt n) = Fraction_gt f (PyFrac \<lparr>num = n, den = 1\<rparr>)
       \<and> Fraction_ge f (PyInt n) = Fraction_ge f (PyFrac \<lparr>num = n, den = 1\<rparr>)
       \<and> Fraction_eq f (PyInt n) = Fraction_eq f (PyFrac \<lparr>num = n, den = 1\<rparr>)
       \<and> Fraction_lt f (PyInt n) = Inr (PyBool (rat_of f < of_int n))
       \<and> Fraction_eq f (PyInt n) = Inr (PyBool (rat_of f = of_int n))"
proof -
  have pf: "0 < den f" and pg: "0 < den g"
    using assms by (simp_all add: reduced_def)
  let ?n = "\<lparr>num = n, den = 1\<rparr>"
  have rn: "reduced ?n" by (simp add: reduced_def)
  have vn: "rat_of ?n = of_int n" by (simp add: rat_of_def)
  have lt: "Fraction_lt f (PyFrac g) = Inr (PyBool (rat_of f < rat_of g))"
    by (simp add: Fraction_lt_def rat_of_less_iff [OF pf pg])
  have le: "Fraction_le f (PyFrac g) = Inr (PyBool (rat_of f \<le> rat_of g))"
    by (simp add: Fraction_le_def rat_of_le_iff [OF pf pg])
  have gt: "Fraction_gt f (PyFrac g) = Inr (PyBool (rat_of f > rat_of g))"
    by (simp add: Fraction_gt_def rat_of_less_iff [OF pg pf])
  have ge: "Fraction_ge f (PyFrac g) = Inr (PyBool (rat_of f \<ge> rat_of g))"
    by (simp add: Fraction_ge_def rat_of_le_iff [OF pg pf])
  have eq: "Fraction_eq f (PyFrac g) = Inr (PyBool (rat_of f = rat_of g))"
    by (simp add: Fraction_eq_def rat_of_eq_iff [OF assms])
  have ints: "Fraction_lt f (PyInt n) = Fraction_lt f (PyFrac ?n)"
    "Fraction_le f (PyInt n) = Fraction_le f (PyFrac ?n)"
    "Fraction_gt f (PyInt n) = Fraction_gt f (PyFrac ?n)"
    "Fraction_ge f (PyInt n) = Fraction_ge f (PyFrac ?n)"
    "Fraction_eq f (PyInt n) = Fraction_eq f (PyFrac ?n)"
    by (simp_all add: Fraction_lt_def Fraction_le_def Fraction_gt_def Fraction_ge_def
        Fraction_eq_def)
  have ltn: "Fraction_lt f (PyInt n) = Inr (PyBool (rat_of f < of_int n))"
    using rat_of_less_iff [OF pf, of ?n] by (simp add: Fraction_lt_def vn)
  have eqn: "Fraction_eq f (PyInt n) = Inr (PyBool (rat_of f = of_int n))"
    using rat_of_eq_iff [OF assms(1) rn] by (simp add: Fraction_eq_def vn)
  from lt le gt ge eq ints ltn eqn show ?thesis
    by (intro conjI)
qed

theorem comparisons_agree_with_rational_order_witness:
  "Fraction_lt \<lparr>num = - 1, den = 2\<rparr> (PyFrac \<lparr>num = 1, den = 3\<rparr>) = Inr (PyBool True)
   \<and> Fraction_ge \<lparr>num = - 1, den = 2\<rparr> (PyFrac \<lparr>num = 1, den = 3\<rparr>) = Inr (PyBool False)
   \<and> Fraction_eq \<lparr>num = - 1, den = 2\<rparr> (PyFrac \<lparr>num = 1, den = 3\<rparr>) = Inr (PyBool False)
   \<and> Fraction_lt \<lparr>num = - 1, den = 2\<rparr> (PyInt 0) = Inr (PyBool True)"
proof -
  have f: "reduced \<lparr>num = - 1, den = 2\<rparr>" and g: "reduced \<lparr>num = 1, den = 3\<rparr>"
    by code_simp+
  show ?thesis
    using comparisons_agree_with_rational_order [OF f g, of 0]
    by (auto simp: rat_of_def)
qed

subsection \<open>Division, multiplication and floor division\<close>

text \<open>
  Claim C5. For fractions \<open>f\<close> and \<open>g\<close> with \<open>g\<close> nonzero, \<open>(f / g) * g == f\<close>: the product
  has the numerator and the denominator of \<open>f\<close>.
\<close>

theorem truediv_then_mul_roundtrip:
  assumes "reduced f" and "reduced g" and "num g \<noteq> 0"
  shows "\<exists>q p. Fraction_truediv f (PyFrac g) = Inr (PyFrac q)
             \<and> Fraction_mul q (PyFrac g) = Inr (PyFrac p)
             \<and> Fraction_eq p (PyFrac f) = Inr (PyBool True)
             \<and> num p = num f \<and> den p = den f"
proof -
  have pf: "0 < den f" and pg: "0 < den g"
    using assms by (simp_all add: reduced_def)
  with assms(3) have nz: "den f * num g \<noteq> 0"
    by simp
  then obtain q where q: "FractionDataType (num f * den g) (den f * num g) = Inr q"
    by (simp add: FractionDataType_normalize)
  have cross: "num q * (den f * num g) = (num f * den g) * den q"
    using q by (rule FractionDataType_value(2))
  have pq: "0 < den q"
    using FractionDataType_reduced [OF q] by (simp add: reduced_def)
  have "num q * num g * den f * den g = num f * (den q * den g) * den g"
    using cross by (simp add: algebra_simps)
  with pg have prod_eq: "num q * num g * den f = num f * (den q * den g)"
    by simp
  have "den q * den g \<noteq> 0"
    using pq pg by simp
  with assms(1) prod_eq have mul: "new_fraction (num q * num g) (den q * den g) = Inr (PyFrac f)"
    by (intro new_fraction_canonical)
  have "Fraction_truediv f (PyFrac g) = Inr (PyFrac q)"
    using assms(3) q by (simp add: Fraction_truediv_def new_fraction_def)
  moreover have "Fraction_mul q (PyFrac g) = Inr (PyFrac f)"
    using mul by (simp add: Fraction_mul_def)
  moreover have "Fraction_eq f (PyFrac f) = Inr (PyBool True)"
    by (simp add: Fraction_eq_def)
  ultimately show ?thesis
    by blast
qed

theorem truediv_then_mul_roundtrip_witness:
  "Fraction_truediv \<lparr>num = 3, den = 4\<rparr> (PyFrac \<lparr>num = - 9, den = 10\<rparr>) = Inr (PyFrac \<lparr>num = - 5, den = 6\<rparr>)
   \<and> Fraction_mul \<lparr>num = - 5, den = 6\<rparr> (PyFrac \<lparr>num = - 9, den = 10\<rparr>) = Inr (PyFrac \<lparr>num = 3, den = 4\<rparr>)"
proof -
  have f: "reduced \<lparr>num = 3, den = 4\<rparr>" and g: "reduced \<lparr>num = - 9, den = 10\<rparr>"
    by code_simp+
  have d: "Fraction_truediv \<lparr>num = 3, den = 4\<rparr> (PyFrac \<lparr>num = - 9, den = 10\<rparr>) = Inr (PyFrac \<lparr>num = - 5, den = 6\<rparr>)"
    by code_simp
  from truediv_then_mul_roundtrip [OF f g] obtain q p where
    "Fraction_truediv \<lparr>num = 3, den = 4\<rparr> (PyFrac \<lparr>num = - 9, den = 10\<rparr>) = Inr (PyFrac q)"
    "Fraction_mul q (PyFrac \<lparr>num = - 9, den = 10\<rparr>) = Inr (PyFrac p)"
    "num p = 3" "den p = 4"
    by auto
  with d show ?thesis
    by auto
qed

text \<open>
  Claim C7. For fractions \<open>a/b\<close> and \<open>c/d\<close> with \<open>c/d\<close> nonzero, floor division returns the
  integer \<open>\<lfloor>(a * d) / (b * c)\<rfloor>\<close>, the greatest integer not above the quotient of the two
  fractions: it rounds toward negative infinity, also for negative operands.
\<close>

theorem floordiv_is_mathematical_floor:
  assumes "reduced f" and "reduced g" and "num g \<noteq> 0"
  shows "Fraction_floordiv f (PyFrac g)
           = Inr (PyInt \<lfloor>(of_int (num f * den g) :: rat) / of_int (den f * num g)\<rfloor>)
       \<and> (of_int (num f * den g) :: rat) / of_int (den f * num g) = rat_of f / rat_of g
       \<and> (\<exists>q. Fraction_floordiv f (PyFrac g) = Inr (PyInt q)
              \<and> of_int q \<le> rat_of f / rat_of g \<and> rat_of f / rat_of g < of_int q + 1)"
proof -
  have pf: "0 < den f" and pg: "0 < den g"
    using assms by (simp_all add: reduced_def)
  with assms(3) have nz: "den f * num g \<noteq> 0"
    by simp
  have call: "Fraction_floordiv f (PyFrac g) = Inr (PyInt ((num f * den g) div (den f * num g)))"
    using assms(3) nz by (simp add: Fraction_floordiv_def)
  have fl: "\<lfloor>(of_int (num f * den g) :: rat) / of_int (den f * num g)\<rfloor>
              = (num f * den g) div (den f * num g)"
    by (rule floor_divide_of_int_eq)
  have quot: "(of_int (num f * den g) :: rat) / of_int (den f * num g) = rat_of f / rat_of g"
    using pf pg assms(3) by (simp add: rat_of_def)
  let ?q = "\<lfloor>rat_of f / rat_of g\<rfloor>"
  have "Fraction_floordiv f (PyFrac g) = Inr (PyInt ?q)"
    using call fl quot by simp
  moreover have "of_int ?q \<le> rat_of f / rat_of g" "rat_of f / rat_of g < of_int ?q + 1"
    using floor_correct [of "rat_of f / rat_of g"] by simp_all
  ultimately have "\<exists>q. Fraction_floordiv f (PyFrac g) = Inr (PyInt q)
              \<and> of_int q \<le> rat_of f / rat_of g \<and> rat_of f / rat_of g < of_int q + 1"
    by blast
  with call fl quot show ?thesis
    by simp
qed

theorem floordiv_is_mathematical_floor_witness:
  "Fraction_floordiv \<lparr>num = - 7, den = 2\<rparr> (PyFrac \<lparr>num = 3, den = 2\<rparr>) = Inr (PyInt (- 3))
   \<and> Fraction_floordiv \<lparr>num = 7, den = 2\<rparr> (PyFrac \<lparr>num = - 3, den = 2\<rparr>) = Inr (PyInt (- 3))
   \<and> Fraction_floordiv \<lparr>num = 7, den = 2\<rparr> (PyFrac \<lparr>num = 3, den = 2\<rparr>) = Inr (PyInt 2)"
proof -
  have f: "reduced \<lparr>num = - 7, den = 2\<rparr>" and g: "reduced \<lparr>num = 3, den = 2\<rparr>"
    and f': "reduced \<lparr>num = 7, den = 2\<rparr>" and g': "reduced \<lparr>num = - 3, den = 2\<rparr>"
    by code_simp+
  have fl: "\<lfloor>- 14 / 6 :: rat\<rfloor> = - 3" "\<lfloor>14 / - 6 :: rat\<rfloor> = - 3" "\<lfloor>14 / 6 :: rat\<rfloor> = 2"
    by (simp_all add: floor_eq_iff)
  have "Fraction_floordiv \<lparr>num = - 7, den = 2\<rparr> (PyFrac \<lparr>num = 3, den = 2\<rparr>) = Inr (PyInt (- 3))"
    using floordiv_is_mathematical_floor [OF f g] fl by simp
  moreover have "Fraction_floordiv \<lparr>num = 7, den = 2\<rparr> (PyFrac \<lparr>num = - 3, den = 2\<rparr>) = Inr (PyInt (- 3))"
    using floordiv_is_mathematical_floor [OF f' g'] fl by simp
  moreover have "Fraction_floordiv \<lparr>num = 7, den = 2\<rparr> (PyFrac \<lparr>num = 3, den = 2\<rparr>) = Inr (PyInt 2)"
    using floordiv_is_mathematical_floor [OF f' g] fl by simp
  ultimately show ?thesis
    by simp
qed

subsection \<open>Mixed numbers\<close>

text \<open>
  Claim C9. \<^verbatim>\<open>as_mixed_number\<close> returns \<open>(whole, remainder, den)\<close> with
  \<open>whole = num div den\<close> (floor) and \<open>remainder = \<bar>num\<bar> mod den\<close>, and for a non-negative
  fraction \<open>f\<close>, \<^verbatim>\<open>from_mixed\<close> on that triple yields a fraction equal to \<open>f\<close>.
\<close>

theorem mixed_number_roundtrip:
  assumes "reduced f"
  shows "as_mixed_number f = Inr (num f div den f, \<bar>num f\<bar> mod den f, den f)
       \<and> (0 \<le> num f \<longrightarrow>
            bind_result (as_mixed_number f) (\<lambda>(whole, remainder, d). from_mixed whole remainder d)
              = Inr (PyFrac f)
          \<and> Fraction_eq f (PyFrac f) = Inr (PyBool True))"
proof -
  have pf: "den f \<noteq> 0"
    using assms by (simp add: reduced_def)
  then have triple: "as_mixed_number f = Inr (num f div den f, \<bar>num f\<bar> mod den f, den f)"
    by (simp add: as_mixed_number_def)
  have "bind_result (as_mixed_number f) (\<lambda>(whole, remainder, d). from_mixed whole remainder d)
          = Inr (PyFrac f)"
    if "0 \<le> num f"
  proof -
    from that have "num f div den f * den f + \<bar>num f\<bar> mod den f = num f"
      by simp
    then have "from_mixed (num f div den f) (\<bar>num f\<bar> mod den f) (den f) = Inr (PyFrac f)"
      using assms by (simp add: from_mixed_def new_fraction_def FractionDataType_idem)
    then show ?thesis
      by (simp add: triple)
  qed
  moreover have "Fraction_eq f (PyFrac f) = Inr (PyBool True)"
    by (simp add: Fraction_eq_def)
  ultimately show ?thesis
    using triple by simp
qed

theorem mixed_number_roundtrip_witness:
  "as_mixed_number \<lparr>num = 7, den = 3\<rparr> = Inr (2, 1, 3)
   \<and> from_mixed 2 1 3 = Inr (PyFrac \<lparr>num = 7, den = 3\<rparr>)"
proof -
  have f: "reduced \<lparr>num = 7, den = 3\<rparr>"
    by code_simp
  note t = mixed_number_roundtrip [OF f]
  from t have "as_mixed_number \<lparr>num = 7, den = 3\<rparr>
      = Inr (num \<lparr>num = 7, den = 3\<rparr> div den \<lparr>num = 7, den = 3\<rparr>,
             \<bar>num \<lparr>num = 7, den = 3\<rparr>\<bar> mod den \<lparr>num = 7, den = 3\<rparr>,
             den \<lparr>num = 7, den = 3\<rparr>)"
    by (rule conjunct1)
  then have triple: "as_mixed_number \<lparr>num = 7, den = 3\<rparr> = Inr (2, 1, 3)"
    by simp
  from t have "0 \<le> num \<lparr>num = 7, den = 3\<rparr> \<longrightarrow>
      bind_result (as_mixed_number \<lparr>num = 7, den = 3\<rparr>)
        (\<lambda>(whole, remainder, d). from_mixed whole remainder d) = Inr (PyFrac \<lparr>num = 7, den = 3\<rparr>)
      \<and> Fraction_eq \<lparr>num = 7, den = 3\<rparr> (PyFrac \<lparr>num = 7, den = 3\<rparr>) = Inr (PyBool True)"
    by (rule conjunct2)
  then have "bind_result (Inr (2, 1, 3)) (\<lambda>(whole, remainder, d). from_mixed whole remainder d)
      = Inr (PyFrac \<lparr>num = 7, den = 3\<rparr>)"
    unfolding triple by simp
  then have "from_mixed 2 1 3 = Inr (PyFrac \<lparr>num = 7, den = 3\<rparr>)"
    by simp
  with triple show ?thesis
    by (intro conjI)
qed

subsection \<open>Negative powers of zero\<close>

text \<open>
  Claim C10. For every \<open>n > 0\<close>, \<^verbatim>\<open>FractionDataType(0, 1) ** (-n)\<close> raises the error of a
  zero denominator: the negative branch calls the constructor with \<open>den ^ n\<close> over
  \<open>num ^ n = 0\<close>.
\<close>

theorem pow_zero_negative_raises:
  assumes "0 < n"
  shows "bind_result (FractionDataType 0 1) (\<lambda>z. Fraction_pow z (PyInt (- n)))
           = Inl (ValueError ''Denominator cannot be zero'')"
proof -
  from assms have "(0::int) ^ nat n = 0"
    by (simp add: power_0_left)
  then have "FractionDataType (1 ^ nat n) (0 ^ nat n) = Inl (ValueError ''Denominator cannot be zero'')"
    by (simp only: FractionDataType_zero)
  then have "new_fraction (1 ^ nat n) (0 ^ nat n) = Inl (ValueError ''Denominator cannot be zero'')"
    by (simp only: new_fraction_def bind_result_Inl)
  with assms show ?thesis
    by (simp add: Fraction_pow_def int_operand_def)
qed

theorem pow_zero_negative_raises_witness:
  "bind_result (FractionDataType 0 1) (\<lambda>z. Fraction_pow z (PyInt (- 2)))
     = Inl (ValueError ''Denominator cannot be zero'')"
  using pow_zero_negative_raises [of 2] by simp

subsection \<open>When the operations raise\<close>

lemma operator_simps [simp]:
  "method f rhs = Inl e \<Longrightarrow> operator method (PyFrac f) rhs = Inl e"
  "method f rhs = Inr (PyFrac p) \<Longrightarrow> operator method (PyFrac f) rhs = Inr (PyFrac p)"
  "method f rhs = Inr (PyInt q) \<Longrightarrow> operator method (PyFrac f) rhs = Inr (PyInt q)"
  by (simp_all add: operator_def)

lemma new_fraction_total:
  "d \<noteq> 0 \<Longrightarrow> \<exists>p. new_fraction n d = Inr (PyFrac p) \<and> reduced p"
  using FractionDataType_reduced [of n d]
  by (simp add: new_fraction_def FractionDataType_normalize)

lemma Fraction_mul_total:
  assumes "den f \<noteq> 0" and "coerce v = Inr (PyFrac g)" and "den g \<noteq> 0"
  shows "\<exists>p. Fraction_mul f v = Inr (PyFrac p) \<and> reduced p"
  using assms new_fraction_total [of "den f * den g"] by (simp add: Fraction_mul_def)

lemma Fraction_add_total:
  assumes "den f \<noteq> 0" and "coerce v = Inr (PyFrac g)" and "den g \<noteq> 0"
  shows "\<exists>p. Fraction_add f v = Inr (PyFrac p) \<and> reduced p"
  using assms new_fraction_total [of "den f * den g"] by (simp add: Fraction_add_def)

lemma Fraction_sub_total:
  assumes "den f \<noteq> 0" and "coerce v = Inr (PyFrac g)" and "den g \<noteq> 0"
  shows "\<exists>p. Fraction_sub f v = Inr (PyFrac p) \<and> reduced p"
  using assms new_fraction_total [of "den f * den g"] by (simp add: Fraction_sub_def)

lemma Fraction_truediv_Inl_iff:
  assumes "den f \<noteq> 0" and "coerce v = Inr (PyFrac g)"
  shows "Fraction_truediv f v = Inl e \<longleftrightarrow> num g = 0 \<and> e = ValueError ''Cannot divide by zero''"
  using assms by (auto simp: Fraction_truediv_def new_fraction_Inl_iff)

lemma Fraction_floordiv_cases:
  assumes "den f \<noteq> 0" and "coerce v = Inr (PyFrac g)"
  shows "Fraction_floordiv f v =
           (if num g = 0 then Inl (ValueError ''Cannot divide by zero'')
            else Inr (PyInt ((num f * den g) div (den f * num g))))"
  using assms by (simp add: Fraction_floordiv_def)

lemma Fraction_mod_cases:
  assumes "den f \<noteq> 0" and "coerce v = Inr (PyFrac g)" and "den g \<noteq> 0"
  shows "if num g = 0 then Fraction_mod f v = Inl (ValueError ''Cannot divide by zero'')
         else (\<exists>p. Fraction_mod f v = Inr (PyFrac p) \<and> reduced p)"
proof (cases "num g = 0")
  case True
  then have "Fraction_floordiv f (PyFrac g) = Inl (ValueError ''Cannot divide by zero'')"
    using assms(1) by (simp add: Fraction_floordiv_cases)
  then show ?thesis
    using True assms(2) by (simp add: Fraction_mod_def)
next
  case False
  let ?q = "(num f * den g) div (den f * num g)"
  have fd: "Fraction_floordiv f (PyFrac g) = Inr (PyInt ?q)"
    using False assms(1) by (simp add: Fraction_floordiv_cases)
  obtain m where m: "Fraction_mul g (PyInt ?q) = Inr (PyFrac m)" and rm: "reduced m"
    using Fraction_mul_total [OF assms(3), of "PyInt ?q"] by auto
  from rm have "den m \<noteq> 0"
    by (simp add: reduced_def)
  then obtain p where p: "Fraction_sub f (PyFrac m) = Inr (PyFrac p)" and rp: "reduced p"
    using Fraction_sub_total [OF assms(1), of "PyFrac m" m] by auto
  have "Fraction_mod f v = Inr (PyFrac p)"
    using assms(2) fd m p by (simp add: Fraction_mod_def)
  with False rp show ?thesis
    by auto
qed

lemma Fraction_pow_Inl_iff:
  assumes "den f \<noteq> 0"
  shows "Fraction_pow f (PyInt k) = Inl e \<longleftrightarrow>
           num f = 0 \<and> k < 0 \<and> e = ValueError ''Denominator cannot be zero''"
proof (cases "k < 0")
  case True
  then have "nat (- k) \<noteq> 0" by simp
  then have "num f ^ nat (- k) = 0 \<longleftrightarrow> num f = 0"
    by simp
  with True show ?thesis
    by (simp add: Fraction_pow_def int_operand_def new_fraction_Inl_iff)
next
  case False
  with assms show ?thesis
    by (simp add: Fraction_pow_def int_operand_def new_fraction_Inl_iff)
qed

text \<open>
  Claim C6 says that the zero-division error is raised by construction with a zero
  denominator, by true and floor division by a fraction with numerator 0 and by the
  reciprocal of zero, and by no other call. Two calls outside that list raise it:
  \<^verbatim>\<open>FractionDataType(1, 2) % FractionDataType(0, 1)\<close>, a modulo, and
  \<^verbatim>\<open>FractionDataType(0, 1) ** -1\<close>, a power.
\<close>

theorem zero_division_in_mod_and_pow:
  "Fraction_mod \<lparr>num = 1, den = 2\<rparr> (PyFrac \<lparr>num = 0, den = 1\<rparr>)
     = Inl (ValueError ''Cannot divide by zero'')
   \<and> Fraction_pow \<lparr>num = 0, den = 1\<rparr> (PyInt (- 1))
     = Inl (ValueError ''Denominator cannot be zero'')"
  by code_simp

text \<open>
  Claim C6 as amended. On canonical operands (\<open>v\<close> is the right operand, an integer or a
  fraction, which the operator reads as the fraction \<open>g\<close>) the calls that raise are exactly:
  the constructor and \<^verbatim>\<open>from_mixed\<close> with denominator 0, and a negative power of a fraction
  with numerator 0, with the constructor's error; true division, floor division and modulo
  by an operand with numerator 0, and the reflected division \<open>v / f\<close> when \<open>f\<close> has numerator
  0, with the division's error; the reciprocal of a fraction with numerator 0. Each of
  these calls raises, and addition, subtraction, multiplication, their reflected forms,
  the unary operators, \<^verbatim>\<open>simplify\<close>, the comparisons, \<^verbatim>\<open>as_mixed_number\<close> and the
  conversion to \<^verbatim>\<open>int\<close> never raise.
\<close>

theorem zero_division_cases:
  assumes "reduced f" and "coerce v = Inr (PyFrac g)" and "reduced g"
  shows "(FractionDataType n d = Inl e \<longleftrightarrow> d = 0 \<and> e = ValueError ''Denominator cannot be zero'')
       \<and> (from_mixed w m d = Inl e \<longleftrightarrow> d = 0 \<and> e = ValueError ''Denominator cannot be zero'')
       \<and> (Fraction_pow f (PyInt k) = Inl e \<longleftrightarrow>
            num f = 0 \<and> k < 0 \<and> e = ValueError ''Denominator cannot be zero'')
       \<and> (Fraction_truediv f v = Inl e \<longleftrightarrow> num g = 0 \<and> e = ValueError ''Cannot divide by zero'')
       \<and> (Fraction_floordiv f v = Inl e \<longleftrightarrow> num g = 0 \<and> e = ValueError ''Cannot divide by zero'')
       \<and> (Fraction_mod f v = Inl e \<longleftrightarrow> num g = 0 \<and> e = ValueError ''Cannot divide by zero'')
       \<and> (Fraction_rtruediv f v = Inl e \<longleftrightarrow> num f = 0 \<and> e = ValueError ''Cannot divide by zero'')
       \<and> (reciprocal f = Inl e \<longleftrightarrow> num f = 0 \<and> e = ValueError ''Cannot take reciprocal of zero'')
       \<and> Fraction_add f v \<noteq> Inl e \<and> Fraction_radd f v \<noteq> Inl e
       \<and> Fraction_sub f v \<noteq> Inl e \<and> Fraction_rsub f v \<noteq> Inl e
       \<and> Fraction_mul f v \<noteq> Inl e \<and> Fraction_rmul f v \<noteq> Inl e
       \<and> Fraction_neg f \<noteq> Inl e \<and> Fraction_pos f \<noteq> Inl e \<and> Fraction_abs f \<noteq> Inl e
       \<and> simplify f \<noteq> Inl e
       \<and> Fraction_eq f v \<noteq> Inl e \<and> Fraction_ne f v \<noteq> Inl e
       \<and> Fraction_lt f v \<noteq> Inl e \<and> Fraction_le f v \<noteq> Inl e
       \<and> Fraction_gt f v \<noteq> Inl e \<and> Fraction_ge f v \<noteq> Inl e
       \<and> as_mixed_number f \<noteq> Inl e \<and> Fraction_int f \<noteq> Inl e"
proof -
  have pf: "den f \<noteq> 0" and pg: "den g \<noteq> 0"
    using assms by (simp_all add: reduced_def)
  note cv = assms(2)
  have init: "FractionDataType n d = Inl e \<longleftrightarrow> d = 0 \<and> e = ValueError ''Denominator cannot be zero''"
    by (rule FractionDataType_Inl_iff)
  have mixed: "from_mixed w m d = Inl e \<longleftrightarrow> d = 0 \<and> e = ValueError ''Denominator cannot be zero''"
    by (simp add: from_mixed_def new_fraction_Inl_iff)
  have pow: "Fraction_pow f (PyInt k) = Inl e \<longleftrightarrow>
               num f = 0 \<and> k < 0 \<and> e = ValueError ''Denominator cannot be zero''"
    using pf by (rule Fraction_pow_Inl_iff)
  have truediv: "Fraction_truediv f v = Inl e \<longleftrightarrow> num g = 0 \<and> e = ValueError ''Cannot divide by zero''"
    using pf cv by (rule Fraction_truediv_Inl_iff)
  have floordiv: "Fraction_floordiv f v = Inl e \<longleftrightarrow> num g = 0 \<and> e = ValueError ''Cannot divide by zero''"
    by (auto simp: Fraction_floordiv_cases [OF pf cv])
  have mod: "Fraction_mod f v = Inl e \<longleftrightarrow> num g = 0 \<and> e = ValueError ''Cannot divide by zero''"
    using Fraction_mod_cases [OF pf cv pg] by (auto split: if_splits)
  have rtruediv: "Fraction_rtruediv f v = Inl e \<longleftrightarrow> num f = 0 \<and> e = ValueError ''Cannot divide by zero''"
    using Fraction_truediv_Inl_iff [OF pg, of "PyFrac f" f e] cv
    by (simp add: Fraction_rtruediv_def)
  have recip: "reciprocal f = Inl e \<longleftrightarrow> num f = 0 \<and> e = ValueError ''Cannot take reciprocal of zero''"
    by (auto simp: reciprocal_def new_fraction_Inl_iff)
  have add: "Fraction_add f v \<noteq> Inl e" and sub: "Fraction_sub f v \<noteq> Inl e"
    and mul: "Fraction_mul f v \<noteq> Inl e"
    using Fraction_add_total [OF pf cv pg] Fraction_sub_total [OF pf cv pg]
      Fraction_mul_total [OF pf cv pg] by auto
  have radd: "Fraction_radd f v \<noteq> Inl e" and rmul: "Fraction_rmul f v \<noteq> Inl e"
    using add mul by (simp_all add: Fraction_radd_def Fraction_rmul_def)
  have rsub: "Fraction_rsub f v \<noteq> Inl e"
    using Fraction_sub_total [OF pg, of "PyFrac f" f] pf cv
    by (auto simp: Fraction_rsub_def)
  have unary: "Fraction_neg f \<noteq> Inl e" "Fraction_pos f \<noteq> Inl e" "Fraction_abs f \<noteq> Inl e"
    "simplify f \<noteq> Inl e"
    using pf by (simp_all add: Fraction_neg_def Fraction_pos_def Fraction_abs_def simplify_def
        new_fraction_Inl_iff)
  have cmp: "Fraction_eq f v \<noteq> Inl e" "Fraction_ne f v \<noteq> Inl e" "Fraction_lt f v \<noteq> Inl e"
    "Fraction_le f v \<noteq> Inl e" "Fraction_gt f v \<noteq> Inl e" "Fraction_ge f v \<noteq> Inl e"
    using cv by (simp_all add: Fraction_eq_def Fraction_ne_def Fraction_lt_def Fraction_le_def
        Fraction_gt_def Fraction_ge_def)
  have conv: "as_mixed_number f \<noteq> Inl e" "Fraction_int f \<noteq> Inl e"
    using pf by (simp_all add: as_mixed_number_def Fraction_int_def)
  from init mixed pow truediv floordiv mod rtruediv recip add radd sub rsub mul rmul unary cmp conv
  show ?thesis
    by (intro conjI)
qed

theorem zero_division_cases_witness:
  "FractionDataType 1 0 = Inl (ValueError ''Denominator cannot be zero'')
   \<and> Fraction_truediv \<lparr>num = 0, den = 1\<rparr> (PyInt 0) = Inl (ValueError ''Cannot divide by zero'')
   \<and> Fraction_floordiv \<lparr>num = 0, den = 1\<rparr> (PyInt 0) = Inl (ValueError ''Cannot divide by zero'')
   \<and> Fraction_mod \<lparr>num = 0, den = 1\<rparr> (PyInt 0) = Inl (ValueError ''Cannot divide by zero'')
   \<and> Fraction_pow \<lparr>num = 0, den = 1\<rparr> (PyInt (- 3)) = Inl (ValueError ''Denominator cannot be zero'')
   \<and> reciprocal \<lparr>num = 0, den = 1\<rparr> = Inl (ValueError ''Cannot take reciprocal of zero'')
   \<and> Fraction_add \<lparr>num = 0, den = 1\<rparr> (PyInt 0) \<noteq> Inl (ValueError ''Cannot divide by zero'')"
proof -
  have f: "reduced \<lparr>num = 0, den = 1\<rparr>"
    by code_simp
  have v: "coerce (PyInt 0) = Inr (PyFrac \<lparr>num = 0, den = 1\<rparr>)"
    by simp
  show ?thesis
    using zero_division_cases [OF f v f, of 1 0 "ValueError ''Denominator cannot be zero''" 0 0 "- 3"]
      zero_division_cases [OF f v f, of 1 1 "ValueError ''Cannot divide by zero''" 0 0 1]
      zero_division_cases [OF f v f, of 1 1 "ValueError ''Cannot take reciprocal of zero''" 0 0 1]
    by simp
qed

section \<open>Properties of Point and Line\<close>

lemma float_truediv_Inr [simp]: "b \<noteq> 0 \<Longrightarrow> float_truediv a b = Inr (a / b)"
  by (simp add: float_truediv_def)

lemma float_truediv_zero [simp]: "float_truediv a 0 = Inl ZeroDivisionError"
  by (simp add: float_truediv_def)

text \<open>
  Against zero the relative tolerance never helps: \<^verbatim>\<open>isclose(d, 0.0, abs_tol=t)\<close> is
  \<open>\<bar>d\<bar> \<le> t\<close>, and with the default \<^verbatim>\<open>abs_tol=0.0\<close> it is \<open>d = 0\<close>.
\<close>

lemma isclose_zero:
  assumes "0 \<le> t"
  shows "isclose d 0 default_rel_tol t \<longleftrightarrow> \<bar>d\<bar> \<le> t"
proof -
  have "\<bar>d\<bar> \<le> \<bar>d\<bar> / 10 ^ 9 \<longleftrightarrow> d = 0"
    by (simp add: field_simps)
  with assms show ?thesis
    by (auto simp: isclose_def default_rel_tol_def max_def)
qed

lemma isclose_zero_default [simp]: "isclose d 0 default_rel_tol 0 \<longleftrightarrow> d = 0"
  by (simp add: isclose_zero)

lemma hypot_eq_0_iff [simp]: "hypot a b = 0 \<longleftrightarrow> a = 0 \<and> b = 0"
  by (simp add: hypot_def)

lemma hypot_zero [simp]: "hypot 0 0 = 0"
  by (simp add: hypot_def)






text \<open>
  Claim C4 asks for the same kind of failure, the \<^verbatim>\<open>ValueError\<close> of a degenerate input, from
  \<^verbatim>\<open>normalize\<close> on a vector of magnitude 0 and from the four Line operations when
  \<open>A = B = 0\<close>. \<^verbatim>\<open>normalize\<close>, \<^verbatim>\<open>project_point\<close>, \<^verbatim>\<open>unit_normal\<close> and \<^verbatim>\<open>offset\<close> test for the
  degenerate input and raise it; \<^verbatim>\<open>shortest_distance_to_point\<close> has no such test and its
  division by \<^verbatim>\<open>hypot(0, 0)\<close> raises \<^verbatim>\<open>ZeroDivisionError\<close>.
\<close>

theorem degenerate_line_errors:
  "shortest_distance_to_point \<lparr>A = 0, B = 0, C = c\<rparr> (PointObj p) = Inl ZeroDivisionError
   \<and> project_point \<lparr>A = 0, B = 0, C = c\<rparr> (PointObj p) = Inl (ValueError ''Invalid line coefficients'')
   \<and> unit_normal \<lparr>A = 0, B = 0, C = c\<rparr> = Inl (ValueError ''Invalid line coefficients'')
   \<and> offset \<lparr>A = 0, B = 0, C = c\<rparr> distance = Inl (ValueError ''Invalid line coefficients'')
   \<and> (Point_normalize p = Inl e \<longleftrightarrow>
        magnitude p = 0 \<and> e = ValueError ''Cannot normalize zero-length vector'')"
  by (auto simp: shortest_distance_to_point_def project_point_def unit_normal_def offset_def
      Point_normalize_def Let_def)

end
